theory Spec2Isabelle
  imports Main
begin

section \<open>The build command of the CLI: data model\<close>

text \<open>
  The development embeds \<^verbatim>\<open>packages/@angular/cli/commands/build.ts\<close>: the option
  table \<^verbatim>\<open>baseBuildCommandOptions\<close>, and the methods \<^verbatim>\<open>validate\<close> and
  \<^verbatim>\<open>run\<close> of \<^verbatim>\<open>BuildCommand\<close>.

  \<^verbatim>\<open>BuildTaskOptions\<close> is the options object \<^verbatim>\<open>run\<close> receives. Its
  interface (\<^verbatim>\<open>models/build-options\<close>) is imported by the file; the fields are
  those the option table declares, in the table's order, followed by \<^verbatim>\<open>statsJson\<close>.
  Every field is optional in JavaScript: \<open>None\<close> is \<^verbatim>\<open>undefined\<close>.
  The field \<^verbatim>\<open>locale\<close> is spelt \<open>locale_opt\<close>, since \<^verbatim>\<open>locale\<close> is a
  keyword of the theory language.
\<close>

record BuildTaskOptions =
  target :: "string option"
  environment :: "string option"
  outputPath :: "string option"
  aot :: "bool option"
  sourcemaps :: "bool option"
  vendorChunk :: "bool option"
  commonChunk :: "bool option"
  baseHref :: "string option"
  deployUrl :: "string option"
  verbose :: "bool option"
  progress :: "bool option"
  i18nFile :: "string option"
  i18nFormat :: "string option"
  locale_opt :: "string option"
  missingTranslation :: "string option"
  extractCss :: "bool option"
  watch :: "bool option"
  outputHashing :: "string option"
  poll :: "int option"
  app :: "string option"
  deleteOutputPath :: "bool option"
  preserveSymlinks :: "bool option"
  extractLicenses :: "bool option"
  showCircularDependencies :: "bool option"
  buildOptimizer :: "bool option"
  namedChunks :: "bool option"
  subresourceIntegrity :: "bool option"
  bundleDependencies :: "string option"
  serviceWorker :: "bool option"
  skipAppShell :: "bool option"
  statsJson :: "bool option"

text \<open>
  The application descriptor \<^verbatim>\<open>getAppFromConfig\<close> returns, with the fields
  \<^verbatim>\<open>run\<close> reads: \<^verbatim>\<open>outDir\<close>, \<^verbatim>\<open>index\<close>, \<^verbatim>\<open>platform\<close> and the
  optional \<^verbatim>\<open>appShell\<close>, itself an object with the fields \<^verbatim>\<open>app\<close> (the
  name or index of the server application) and \<^verbatim>\<open>route\<close>.
\<close>

record AppShell =
  appShell_app :: string
  appShell_route :: string

record AppConfig =
  outDir :: string
  index :: string
  platform :: string
  appShell :: "AppShell option"

text \<open>The argument of the render task, \<^verbatim>\<open>RenderUniversalTaskOptions\<close>.\<close>

record RenderUniversalTaskOptions =
  inputIndexPath :: string
  route :: string
  serverOutDir :: string
  outputIndexPath :: string

section \<open>Collaborators, errors and the log of calls\<close>

text \<open>
  \<^verbatim>\<open>run\<close> throws a \<^verbatim>\<open>SilentError\<close> of its own (the platform guard) and lets
  every exception of a collaborator through: \<open>Thrown e\<close> is an exception \<open>e\<close> raised by
  a collaborator (a rejected promise, once awaited, is such an exception).
  \<open>TypeError\<close> is what JavaScript raises on \<^verbatim>\<open>serverApp.outDir\<close> when
  \<^verbatim>\<open>serverApp\<close> is still \<^verbatim>\<open>null\<close>.
\<close>

datatype 'e error = SilentError string | TypeError | Thrown 'e

text \<open>
  \<^verbatim>\<open>run\<close> returns either the result of the build task or the result of the render
  task.
\<close>

datatype ('b, 'r) run_result = BuildTaskResult 'b | RenderUniversalTaskResult 'r

text \<open>The calls a command makes to its collaborators, in the order it makes them.\<close>

datatype event =
    AssertAngularVersionIs2_3_1OrHigher string
  | AssertTypescriptVersion string
  | GetAppFromConfig "string option"
  | BuildTaskRun BuildTaskOptions
  | RenderUniversalTaskRun RenderUniversalTaskOptions

text \<open>
  What the command reaches outside \<^verbatim>\<open>build.ts\<close>, taken as parameters:
  \<^verbatim>\<open>this.project.root\<close>, the two assertions of \<^verbatim>\<open>Version\<close>,
  \<^verbatim>\<open>getAppFromConfig\<close>, the \<^verbatim>\<open>run\<close> methods of the build task and of the
  render task, and \<^verbatim>\<open>join\<close> of Node's \<^verbatim>\<open>path\<close> module. \<open>'w\<close> is the
  world the tasks act on (the file system); a task takes the world it starts in and
  returns the world it leaves, with its result or the exception it raises. The
  assertions and the resolver only read, as the specification has them (a check passes
  silently or fails; the resolver returns a descriptor or fails): an assertion returns
  the exception it raises, or \<open>None\<close>; \<^verbatim>\<open>getAppFromConfig\<close> reads the
  configuration loaded with the module. Options are values here: a task is taken not
  to write to the options object it is passed.
\<close>

record ('w, 'e, 'b, 'r) collaborators =
  project_root :: string
  assertAngularVersionIs2_3_1OrHigher :: "string \<Rightarrow> 'w \<Rightarrow> 'e option"
  assertTypescriptVersion :: "string \<Rightarrow> 'w \<Rightarrow> 'e option"
  getAppFromConfig :: "string option \<Rightarrow> 'e + AppConfig"
  buildTask_run :: "BuildTaskOptions \<Rightarrow> 'w \<Rightarrow> ('e + 'b) \<times> 'w"
  renderUniversalTask_run :: "RenderUniversalTaskOptions \<Rightarrow> 'w \<Rightarrow> ('e + 'r) \<times> 'w"
  join :: "string list \<Rightarrow> string"

text \<open>The state a command runs in: the world, and the calls made so far.\<close>

record 'w state =
  world :: 'w
  calls :: "event list"

definition init :: "'w \<Rightarrow> 'w state" where
  "init w = \<lparr>world = w, calls = []\<rparr>"

definition logCall :: "event \<Rightarrow> 'w state \<Rightarrow> 'w state" where
  "logCall e s = s\<lparr>calls := calls s @ [e]\<rparr>"

text \<open>
  A call of \<^verbatim>\<open>getAppFromConfig(sel)\<close>, and an awaited call of a task: the caller
  goes on, in the world the task left, only when the task has returned.
\<close>

definition call_getAppFromConfig ::
  "('w, 'e, 'b, 'r) collaborators \<Rightarrow> string option \<Rightarrow> 'w state \<Rightarrow> ('e + AppConfig) \<times> 'w state" where
  "call_getAppFromConfig c sel s = (getAppFromConfig c sel, logCall (GetAppFromConfig sel) s)"

definition await_buildTask_run ::
  "('w, 'e, 'b, 'r) collaborators \<Rightarrow> BuildTaskOptions \<Rightarrow> 'w state \<Rightarrow> ('e + 'b) \<times> 'w state" where
  "await_buildTask_run c options s =
     (case buildTask_run c options (world s) of
        (r, w') \<Rightarrow> (r, \<lparr>world = w', calls = calls s @ [BuildTaskRun options]\<rparr>))"

definition await_renderUniversalTask_run ::
  "('w, 'e, 'b, 'r) collaborators \<Rightarrow> RenderUniversalTaskOptions \<Rightarrow> 'w state \<Rightarrow> ('e + 'r) \<times> 'w state" where
  "await_renderUniversalTask_run c options s =
     (case renderUniversalTask_run c options (world s) of
        (r, w') \<Rightarrow> (r, \<lparr>world = w', calls = calls s @ [RenderUniversalTaskRun options]\<rparr>))"

section \<open>\<^verbatim>\<open>BuildCommand.validate\<close>\<close>

text \<open>
  The two assertions, one after the other, then \<^verbatim>\<open>return true\<close>. The argument
  \<^verbatim>\<open>_options\<close> (here \<open>unused_options\<close>) is not read.
\<close>

definition validate ::
  "('w, 'e, 'b, 'r) collaborators \<Rightarrow> BuildTaskOptions \<Rightarrow> 'w state \<Rightarrow> ('e error + bool) \<times> 'w state" where
  "validate c unused_options s =
     (let s1 = logCall (AssertAngularVersionIs2_3_1OrHigher (project_root c)) s in
      case assertAngularVersionIs2_3_1OrHigher c (project_root c) (world s1) of
        Some e \<Rightarrow> (Inl (Thrown e), s1)
      | None \<Rightarrow>
          (let s2 = logCall (AssertTypescriptVersion (project_root c)) s1 in
           case assertTypescriptVersion c (project_root c) (world s2) of
             Some e \<Rightarrow> (Inl (Thrown e), s2)
           | None \<Rightarrow> (Inr True, s2)))"

section \<open>\<^verbatim>\<open>BuildCommand.run\<close>\<close>

text \<open>
  JavaScript's tests: an optional boolean is truthy when it is \<^verbatim>\<open>true\<close>, an
  optional string when it is defined and not empty. \<^verbatim>\<open>s.substr(-1)\<close> is the last
  character of \<open>s\<close> as a string, and the empty string when \<open>s\<close> is empty.
\<close>

definition truthy_bool :: "bool option \<Rightarrow> bool" where
  "truthy_bool v = (v = Some True)"

definition substr_last :: "string \<Rightarrow> string" where
  "substr_last s = drop (length s - 1) s"

text \<open>
  The first statement of \<^verbatim>\<open>run\<close>: \<^verbatim>\<open>options.deployUrl += '/'\<close> when the
  deploy URL is truthy (defined and not empty) and its last character is not a slash.
  The assignment is to the caller's object; the model returns the updated options.
\<close>

definition addTrailingSlash :: "BuildTaskOptions \<Rightarrow> BuildTaskOptions" where
  "addTrailingSlash options =
     (case deployUrl options of
        None \<Rightarrow> options
      | Some url \<Rightarrow>
          if url \<noteq> [] \<and> substr_last url \<noteq> ''/''
          then options\<lparr>deployUrl := Some (url @ ''/'')\<rparr>
          else options)"

text \<open>The constant \<^verbatim>\<open>doAppShell\<close>.\<close>

definition doAppShell :: "BuildTaskOptions \<Rightarrow> bool" where
  "doAppShell options =
     (target options = Some ''production'' \<and>
      (aot options = None \<or> aot options = Some True) \<and>
      \<not> truthy_bool (skipAppShell options))"

text \<open>The message of the platform guard: \<^verbatim>\<open>Shell app's platform is not "server"\<close>.\<close>

definition shellPlatformMessage :: string where
  "shellPlatformMessage =
     ''Shell app'' @ [CHR 0x27] @ ''s platform is not '' @ [CHR 0x22] @ ''server'' @ [CHR 0x22]"

text \<open>
  The guard: \<^verbatim>\<open>serverApp\<close> starts as \<^verbatim>\<open>null\<close> (\<open>None\<close>), and is resolved and
  checked when the client application has a shell and \<^verbatim>\<open>doAppShell\<close> holds.
\<close>

definition serverAppGuard ::
  "('w, 'e, 'b, 'r) collaborators \<Rightarrow> AppConfig \<Rightarrow> bool \<Rightarrow> 'w state \<Rightarrow>
     ('e error + AppConfig option) \<times> 'w state" where
  "serverAppGuard c clientApp doShell s =
     (case appShell clientApp of
        None \<Rightarrow> (Inr None, s)
      | Some sh \<Rightarrow>
          if doShell then
            (case call_getAppFromConfig c (Some (appShell_app sh)) s of
               (Inl e, s1) \<Rightarrow> (Inl (Thrown e), s1)
             | (Inr serverApp, s1) \<Rightarrow>
                 if platform serverApp \<noteq> ''server''
                 then (Inl (SilentError shellPlatformMessage), s1)
                 else (Inr (Some serverApp), s1))
          else (Inr None, s))"

text \<open>
  The stages after the client build: the server build with \<^verbatim>\<open>serverOptions\<close>, then
  the render task with \<^verbatim>\<open>renderUniversalOptions\<close>, whose result is returned.
\<close>

definition appShellStages ::
  "('w, 'e, 'b, 'r) collaborators \<Rightarrow> BuildTaskOptions \<Rightarrow> AppConfig \<Rightarrow> AppShell \<Rightarrow>
     AppConfig option \<Rightarrow> 'w state \<Rightarrow> ('e error + ('b, 'r) run_result) \<times> 'w state" where
  "appShellStages c options clientApp sh serverApp s =
     (let serverOptions = options\<lparr>app := Some (appShell_app sh)\<rparr> in
      case await_buildTask_run c serverOptions s of
        (Inl e, s1) \<Rightarrow> (Inl (Thrown e), s1)
      | (Inr _, s1) \<Rightarrow>
          (case serverApp of
             None \<Rightarrow> (Inl TypeError, s1)
           | Some sa \<Rightarrow>
               (let renderUniversalOptions =
                      \<lparr>inputIndexPath = join c [project_root c, outDir clientApp, index clientApp],
                       route = appShell_route sh,
                       serverOutDir = join c [project_root c, outDir sa],
                       outputIndexPath = join c [project_root c, outDir clientApp, index clientApp]\<rparr> in
                case await_renderUniversalTask_run c renderUniversalOptions s1 of
                  (Inl e, s2) \<Rightarrow> (Inl (Thrown e), s2)
                | (Inr r, s2) \<Rightarrow> (Inr (RenderUniversalTaskResult r), s2))))"

definition run ::
  "('w, 'e, 'b, 'r) collaborators \<Rightarrow> BuildTaskOptions \<Rightarrow> 'w state \<Rightarrow>
     ('e error + ('b, 'r) run_result) \<times> 'w state" where
  "run c options0 s =
     (let options = addTrailingSlash options0 in
      case call_getAppFromConfig c (app options) s of
        (Inl e, s1) \<Rightarrow> (Inl (Thrown e), s1)
      | (Inr clientApp, s1) \<Rightarrow>
          (case serverAppGuard c clientApp (doAppShell options) s1 of
             (Inl err, s2) \<Rightarrow> (Inl err, s2)
           | (Inr serverApp, s2) \<Rightarrow>
               (case await_buildTask_run c options s2 of
                  (Inl e, s3) \<Rightarrow> (Inl (Thrown e), s3)
                | (Inr buildTaskResult, s3) \<Rightarrow>
                    (case appShell clientApp of
                       None \<Rightarrow> (Inr (BuildTaskResult buildTaskResult), s3)
                     | Some sh \<Rightarrow>
                         if \<not> doAppShell options
                         then (Inr (BuildTaskResult buildTaskResult), s3)
                         else appShellStages c options clientApp sh serverApp s3))))"

text \<open>
  Modelled from the spec: the command runner (\<^verbatim>\<open>models/command\<close> and its caller),
  which is not part of \<^verbatim>\<open>build.ts\<close>. The spec's state machine goes from
  \<open>Validating\<close> to \<open>Error\<close> on any version-check failure, and to \<open>Normalizing\<close>, the
  first step of \<^verbatim>\<open>run\<close>, on success.
\<close>

definition validateAndRun ::
  "('w, 'e, 'b, 'r) collaborators \<Rightarrow> BuildTaskOptions \<Rightarrow> 'w state \<Rightarrow>
     ('e error + ('b, 'r) run_result) \<times> 'w state" where
  "validateAndRun c options s =
     (case validate c options s of
        (Inl err, s1) \<Rightarrow> (Inl err, s1)
      | (Inr _, s1) \<Rightarrow> run c options s1)"

section \<open>Reading the log of calls\<close>

fun buildCalls :: "event list \<Rightarrow> BuildTaskOptions list" where
  "buildCalls [] = []"
| "buildCalls (BuildTaskRun options # es) = options # buildCalls es"
| "buildCalls (_ # es) = buildCalls es"

fun renderCalls :: "event list \<Rightarrow> RenderUniversalTaskOptions list" where
  "renderCalls [] = []"
| "renderCalls (RenderUniversalTaskRun options # es) = options # renderCalls es"
| "renderCalls (_ # es) = renderCalls es"

fun getAppCalls :: "event list \<Rightarrow> string option list" where
  "getAppCalls [] = []"
| "getAppCalls (GetAppFromConfig sel # es) = sel # getAppCalls es"
| "getAppCalls (_ # es) = getAppCalls es"

text \<open>
  The calls made before the first build call, and the calls that follow it when there is
  one.
\<close>

fun beforeBuild :: "event list \<Rightarrow> event list" where
  "beforeBuild [] = []"
| "beforeBuild (BuildTaskRun options # es) = []"
| "beforeBuild (e # es) = e # beforeBuild es"

fun afterBuild :: "event list \<Rightarrow> event list option" where
  "afterBuild [] = None"
| "afterBuild (BuildTaskRun options # es) = Some es"
| "afterBuild (_ # es) = afterBuild es"

text \<open>
  The server build is the second build call of a run: it is called when a build call
  follows the first one.
\<close>

definition serverBuildCalled :: "event list \<Rightarrow> bool" where
  "serverBuildCalled es =
     (case afterBuild es of None \<Rightarrow> False | Some es1 \<Rightarrow> buildCalls es1 \<noteq> [])"

text \<open>
  The shell pipeline, the server build followed by the render, runs when the server build
  is called and the render task is called after it.
\<close>

definition shellPipelineRuns :: "event list \<Rightarrow> bool" where
  "shellPipelineRuns es =
     (case afterBuild es of
        None \<Rightarrow> False
      | Some es1 \<Rightarrow>
          (case afterBuild es1 of None \<Rightarrow> False | Some es2 \<Rightarrow> renderCalls es2 \<noteq> []))"

section \<open>A project to run the command on\<close>

text \<open>
  A project with two applications: the default one, a browser application with an
  application shell for the route \<^verbatim>\<open>/\<close> that names the application \<^verbatim>\<open>ssr\<close>,
  and \<^verbatim>\<open>ssr\<close>, whose platform is the argument \<open>p\<close>; the selector
  \<^verbatim>\<open>plain\<close> names a copy of the default application without a shell. The world
  counts the tasks that have run; the build task returns the selector it was given and
  the render task the path it wrote. The type-checker assertion fails when
  \<open>versionsOk\<close> is off.
\<close>

definition scenarioClientApp :: AppConfig where
  "scenarioClientApp =
     \<lparr>outDir = ''dist'', index = ''index.html'', platform = ''browser'',
      appShell = Some \<lparr>appShell_app = ''ssr'', appShell_route = ''/''\<rparr>\<rparr>"

definition scenarioServerApp :: "string \<Rightarrow> AppConfig" where
  "scenarioServerApp p =
     \<lparr>outDir = ''dist-server'', index = ''index.html'', platform = p, appShell = None\<rparr>"

definition scenarioJoin :: "string list \<Rightarrow> string" where
  "scenarioJoin xs = foldr (\<lambda>a b. if b = [] then a else a @ ''/'' @ b) xs []"

definition scenario :: "string \<Rightarrow> bool \<Rightarrow> (nat, string, string option, string) collaborators" where
  "scenario p versionsOk =
     \<lparr>project_root = ''/proj'',
      assertAngularVersionIs2_3_1OrHigher = (\<lambda>root w. None),
      assertTypescriptVersion = (\<lambda>root w. if versionsOk then None else Some ''typescript too old''),
      getAppFromConfig = (\<lambda>sel. case sel of
          None \<Rightarrow> Inr scenarioClientApp
        | Some n \<Rightarrow> if n = ''ssr'' then Inr (scenarioServerApp p)
                    else if n = ''plain'' then Inr (scenarioClientApp\<lparr>appShell := None\<rparr>)
                    else Inl ''Unable to find app''),
      buildTask_run = (\<lambda>options w. (Inr (app options), Suc w)),
      renderUniversalTask_run = (\<lambda>options w. (Inr (outputIndexPath options), Suc w)),
      join = scenarioJoin\<rparr>"

text \<open>
  The options of a production build, everything else left undefined but
  \<^verbatim>\<open>skipAppShell\<close>, which the option table defaults to \<^verbatim>\<open>false\<close>.
\<close>

definition productionOptions :: BuildTaskOptions where
  "productionOptions =
     \<lparr>target = Some ''production'', environment = None, outputPath = None, aot = None,
      sourcemaps = None, vendorChunk = None, commonChunk = None, baseHref = None,
      deployUrl = Some ''https://cdn.example.com/assets'', verbose = None, progress = None,
      i18nFile = None, i18nFormat = None, locale_opt = None, missingTranslation = None,
      extractCss = None, watch = None, outputHashing = None, poll = None, app = None,
      deleteOutputPath = None, preserveSymlinks = None, extractLicenses = None,
      showCircularDependencies = None, buildOptimizer = None, namedChunks = None,
      subresourceIntegrity = None, bundleDependencies = None, serviceWorker = None,
      skipAppShell = Some False, statsJson = None\<rparr>"

text \<open>
  The same project with a failing task: the build of the application \<open>failing\<close>
  (\<open>None\<close> is the default application) is rejected, or the render is.
\<close>

definition scenarioBuildFails ::
  "string option \<Rightarrow> (nat, string, string option, string) collaborators" where
  "scenarioBuildFails failing =
     (scenario ''server'' True)
       \<lparr>buildTask_run := (\<lambda>options w.
          if app options = failing then (Inl ''build failed'', Suc w)
          else (Inr (app options), Suc w))\<rparr>"

definition scenarioRenderFails :: "(nat, string, string option, string) collaborators" where
  "scenarioRenderFails =
     (scenario ''server'' True)
       \<lparr>renderUniversalTask_run := (\<lambda>options w. (Inl ''render failed'', Suc w))\<rparr>"

text \<open>A deploy URL ends with the separator when it is not empty and its last character is a slash.\<close>

definition endsWithSlash :: "string \<Rightarrow> bool" where
  "endsWithSlash url = (url \<noteq> [] \<and> last url = CHR ''/'')"

section \<open>Basic facts\<close>

lemma buildCalls_append: "buildCalls (xs @ ys) = buildCalls xs @ buildCalls ys"
  by (induction xs rule: buildCalls.induct) simp_all

lemma renderCalls_append: "renderCalls (xs @ ys) = renderCalls xs @ renderCalls ys"
  by (induction xs rule: renderCalls.induct) simp_all

lemma getAppCalls_append: "getAppCalls (xs @ ys) = getAppCalls xs @ getAppCalls ys"
  by (induction xs rule: getAppCalls.induct) simp_all

lemma substr_last_slash: "substr_last url = ''/'' \<longleftrightarrow> endsWithSlash url"
proof (cases url rule: rev_cases)
  case Nil
  then show ?thesis by (simp add: substr_last_def endsWithSlash_def)
next
  case (snoc ys y)
  then show ?thesis by (simp add: substr_last_def endsWithSlash_def)
qed

text \<open>The first statement of \<^verbatim>\<open>run\<close> writes the deploy URL and nothing else.\<close>

lemma addTrailingSlash_app: "app (addTrailingSlash options) = app options"
  by (simp add: addTrailingSlash_def split: option.splits)

lemma addTrailingSlash_app_frame:
  "(addTrailingSlash options)\<lparr>app := app options\<rparr> = addTrailingSlash options"
  by (simp add: addTrailingSlash_def split: option.splits)

lemma doAppShell_addTrailingSlash: "doAppShell (addTrailingSlash options) = doAppShell options"
  by (simp add: addTrailingSlash_def doAppShell_def split: option.splits)

lemma addTrailingSlash_idem:
  "addTrailingSlash (addTrailingSlash options) = addTrailingSlash options"
  by (auto simp add: addTrailingSlash_def substr_last_slash endsWithSlash_def split: option.splits)

lemmas run_defs = run_def serverAppGuard_def appShellStages_def call_getAppFromConfig_def
  await_buildTask_run_def await_renderUniversalTask_run_def logCall_def Let_def
  addTrailingSlash_app doAppShell_addTrailingSlash

lemmas scenario_defs = productionOptions_def scenario_def scenarioClientApp_def
  scenarioServerApp_def scenarioJoin_def init_def doAppShell_def truthy_bool_def
  addTrailingSlash_def endsWithSlash_def substr_last_def validate_def validateAndRun_def
  scenarioBuildFails_def scenarioRenderFails_def

section \<open>The outcomes of \<^verbatim>\<open>run\<close>\<close>

text \<open>
  One lemma for each way through \<^verbatim>\<open>run\<close>: what it returns, the world it leaves
  and the calls it has added to the log.
\<close>

lemma run_client_unresolved:
  assumes "getAppFromConfig c (app options) = Inl e"
  shows "run c options s =
    (Inl (Thrown e), s\<lparr>calls := calls s @ [GetAppFromConfig (app options)]\<rparr>)"
  using assms by (simp add: run_defs)

lemma run_client_only:
  assumes "getAppFromConfig c (app options) = Inr clientApp"
    and "appShell clientApp = None \<or> \<not> doAppShell options"
    and "buildTask_run c (addTrailingSlash options) (world s) = (r, w1)"
  shows "run c options s =
    (case r of Inl e \<Rightarrow> Inl (Thrown e) | Inr b \<Rightarrow> Inr (BuildTaskResult b),
     \<lparr>world = w1,
      calls = calls s @ [GetAppFromConfig (app options), BuildTaskRun (addTrailingSlash options)]\<rparr>)"
  using assms by (auto simp add: run_defs split: option.splits sum.splits)

lemma run_server_unresolved:
  assumes "getAppFromConfig c (app options) = Inr clientApp"
    and "appShell clientApp = Some sh" and "doAppShell options"
    and "getAppFromConfig c (Some (appShell_app sh)) = Inl e"
  shows "run c options s =
    (Inl (Thrown e),
     s\<lparr>calls := calls s @
        [GetAppFromConfig (app options), GetAppFromConfig (Some (appShell_app sh))]\<rparr>)"
  using assms by (simp add: run_defs)

lemma run_platform_mismatch:
  assumes "getAppFromConfig c (app options) = Inr clientApp"
    and "appShell clientApp = Some sh" and "doAppShell options"
    and "getAppFromConfig c (Some (appShell_app sh)) = Inr serverApp"
    and "platform serverApp \<noteq> ''server''"
  shows "run c options s =
    (Inl (SilentError shellPlatformMessage),
     s\<lparr>calls := calls s @
        [GetAppFromConfig (app options), GetAppFromConfig (Some (appShell_app sh))]\<rparr>)"
  using assms by (simp add: run_defs)

lemma run_client_build_fails:
  assumes "getAppFromConfig c (app options) = Inr clientApp"
    and "appShell clientApp = Some sh" and "doAppShell options"
    and "getAppFromConfig c (Some (appShell_app sh)) = Inr serverApp"
    and "platform serverApp = ''server''"
    and "buildTask_run c (addTrailingSlash options) (world s) = (Inl e, w1)"
  shows "run c options s =
    (Inl (Thrown e),
     \<lparr>world = w1,
      calls = calls s @
        [GetAppFromConfig (app options), GetAppFromConfig (Some (appShell_app sh)),
         BuildTaskRun (addTrailingSlash options)]\<rparr>)"
  using assms by (simp add: run_defs)

lemma run_server_build_fails:
  assumes "getAppFromConfig c (app options) = Inr clientApp"
    and "appShell clientApp = Some sh" and "doAppShell options"
    and "getAppFromConfig c (Some (appShell_app sh)) = Inr serverApp"
    and "platform serverApp = ''server''"
    and "buildTask_run c (addTrailingSlash options) (world s) = (Inr b1, w1)"
    and "buildTask_run c ((addTrailingSlash options)\<lparr>app := Some (appShell_app sh)\<rparr>) w1 = (Inl e, w2)"
  shows "run c options s =
    (Inl (Thrown e),
     \<lparr>world = w2,
      calls = calls s @
        [GetAppFromConfig (app options), GetAppFromConfig (Some (appShell_app sh)),
         BuildTaskRun (addTrailingSlash options),
         BuildTaskRun ((addTrailingSlash options)\<lparr>app := Some (appShell_app sh)\<rparr>)]\<rparr>)"
  using assms by (simp add: run_defs)

lemma run_shell_pipeline:
  assumes "getAppFromConfig c (app options) = Inr clientApp"
    and "appShell clientApp = Some sh" and "doAppShell options"
    and "getAppFromConfig c (Some (appShell_app sh)) = Inr serverApp"
    and "platform serverApp = ''server''"
    and "buildTask_run c (addTrailingSlash options) (world s) = (Inr b1, w1)"
    and "buildTask_run c ((addTrailingSlash options)\<lparr>app := Some (appShell_app sh)\<rparr>) w1 = (Inr b2, w2)"
    and "ro = \<lparr>inputIndexPath = join c [project_root c, outDir clientApp, index clientApp],
               route = appShell_route sh,
               serverOutDir = join c [project_root c, outDir serverApp],
               outputIndexPath = join c [project_root c, outDir clientApp, index clientApp]\<rparr>"
    and "renderUniversalTask_run c ro w2 = (r, w3)"
  shows "run c options s =
    (case r of Inl e \<Rightarrow> Inl (Thrown e) | Inr v \<Rightarrow> Inr (RenderUniversalTaskResult v),
     \<lparr>world = w3,
      calls = calls s @
        [GetAppFromConfig (app options), GetAppFromConfig (Some (appShell_app sh)),
         BuildTaskRun (addTrailingSlash options),
         BuildTaskRun ((addTrailingSlash options)\<lparr>app := Some (appShell_app sh)\<rparr>),
         RenderUniversalTaskRun ro]\<rparr>)"
  using assms by (auto simp add: run_defs split: sum.splits)

text \<open>
  Every build call of a run is given the options of the caller, normalised, with at most
  the application selector changed.
\<close>

lemma run_buildCalls_frame:
  assumes "x \<in> set (buildCalls (calls (snd (run c options (init w)))))"
  shows "x\<lparr>app := app options\<rparr> = addTrailingSlash options"
  using assms addTrailingSlash_app_frame [of options]
  by (auto simp add: run_defs init_def split: sum.splits option.splits if_splits prod.splits)

section \<open>Normalisation of the deploy URL\<close>

text \<open>
  C9. When the deploy URL is the empty string, the first statement of \<^verbatim>\<open>run\<close>
  leaves the options as they are, since the empty string is falsy as an absent deploy URL
  is; every build call of the run then receives the empty deploy URL, without a slash.
\<close>

theorem empty_deployUrl_unchanged:
  assumes "deployUrl options = Some ''''"
  shows "addTrailingSlash options = options \<and>
    (\<forall>x \<in> set (buildCalls (calls (snd (run c options (init w))))). deployUrl x = Some '''')"
proof -
  have same: "addTrailingSlash options = options"
    using assms by (simp add: addTrailingSlash_def)
  have "deployUrl x = Some ''''"
    if "x \<in> set (buildCalls (calls (snd (run c options (init w)))))" for x
  proof -
    have "x\<lparr>app := app options\<rparr> = options"
      using run_buildCalls_frame [OF that] same by simp
    then have "deployUrl (x\<lparr>app := app options\<rparr>) = deployUrl options" by simp
    then show ?thesis using assms by simp
  qed
  with same show ?thesis by blast
qed

text \<open>
  On the project above, with the empty deploy URL: both builds of the run receive it
  unchanged.
\<close>

theorem empty_deployUrl_unchanged_witness:
  "deployUrl (productionOptions\<lparr>deployUrl := Some ''''\<rparr>) = Some '''' \<and>
   addTrailingSlash (productionOptions\<lparr>deployUrl := Some ''''\<rparr>) =
     productionOptions\<lparr>deployUrl := Some ''''\<rparr> \<and>
   map deployUrl (buildCalls (calls (snd (run (scenario ''server'' True)
     (productionOptions\<lparr>deployUrl := Some ''''\<rparr>) (init 0))))) = [Some '''', Some '''']"
  using empty_deployUrl_unchanged
    [of "productionOptions\<lparr>deployUrl := Some ''''\<rparr>" "scenario ''server'' True" 0]
  by (simp add: scenario_defs run_defs)

text \<open>
  C3, amended. For every options record whose deploy URL is not empty and does not end
  with a slash, the first statement of \<^verbatim>\<open>run\<close> appends exactly one slash and
  changes no other option; when the deploy URL ends with a slash the options are
  unchanged; normalising twice is normalising once; and every build call of a run
  receives the deploy URL normalised, the normalisation being the first thing the run
  does.
\<close>

theorem deployUrl_trailing_slash:
  "(deployUrl options = Some url \<and> url \<noteq> [] \<and> \<not> endsWithSlash url \<longrightarrow>
      addTrailingSlash options = options\<lparr>deployUrl := Some (url @ ''/'')\<rparr>) \<and>
   (deployUrl options = Some url \<and> endsWithSlash url \<longrightarrow> addTrailingSlash options = options) \<and>
   addTrailingSlash (addTrailingSlash options) = addTrailingSlash options \<and>
   (\<forall>x \<in> set (buildCalls (calls (snd (run c options (init w))))).
      deployUrl x = deployUrl (addTrailingSlash options))"
proof -
  have a: "deployUrl options = Some url \<and> url \<noteq> [] \<and> \<not> endsWithSlash url \<longrightarrow>
      addTrailingSlash options = options\<lparr>deployUrl := Some (url @ ''/'')\<rparr>"
    by (simp add: addTrailingSlash_def substr_last_slash)
  have b: "deployUrl options = Some url \<and> endsWithSlash url \<longrightarrow> addTrailingSlash options = options"
    by (simp add: addTrailingSlash_def substr_last_slash)
  have d: "deployUrl x = deployUrl (addTrailingSlash options)"
    if "x \<in> set (buildCalls (calls (snd (run c options (init w)))))" for x
  proof -
    have "deployUrl (x\<lparr>app := app options\<rparr>) = deployUrl (addTrailingSlash options)"
      using run_buildCalls_frame [OF that] by simp
    then show ?thesis by simp
  qed
  from a b d addTrailingSlash_idem show ?thesis by blast
qed

text \<open>
  Scenario D of the specification, and the same options once normalised: the slash is
  appended to \<^verbatim>\<open>https://cdn.example.com/assets\<close>, nothing is appended the second
  time, and both builds of the run receive the normalised value.
\<close>

theorem deployUrl_trailing_slash_witness:
  "deployUrl productionOptions = Some ''https://cdn.example.com/assets'' \<and>
   \<not> endsWithSlash ''https://cdn.example.com/assets'' \<and>
   addTrailingSlash productionOptions =
     productionOptions\<lparr>deployUrl := Some ''https://cdn.example.com/assets/''\<rparr> \<and>
   endsWithSlash ''https://cdn.example.com/assets/'' \<and>
   addTrailingSlash (productionOptions\<lparr>deployUrl := Some ''https://cdn.example.com/assets/''\<rparr>) =
     productionOptions\<lparr>deployUrl := Some ''https://cdn.example.com/assets/''\<rparr> \<and>
   map deployUrl (buildCalls (calls (snd (run (scenario ''server'' True) productionOptions (init 0))))) =
     [Some ''https://cdn.example.com/assets/'', Some ''https://cdn.example.com/assets/'']"
  using deployUrl_trailing_slash [of productionOptions "''https://cdn.example.com/assets''"
      "scenario ''server'' True" 0]
    deployUrl_trailing_slash
      [of "productionOptions\<lparr>deployUrl := Some ''https://cdn.example.com/assets/''\<rparr>"
        "''https://cdn.example.com/assets/''" "scenario ''server'' True" 0]
  by (simp add: scenario_defs run_defs)

text \<open>
  The claim as first stated fails on the empty deploy URL: it does not end with a slash,
  and no slash is appended.
\<close>

theorem deployUrl_trailing_slash_counterexample:
  "deployUrl (productionOptions\<lparr>deployUrl := Some ''''\<rparr>) = Some '''' \<and>
   \<not> endsWithSlash '''' \<and>
   deployUrl (addTrailingSlash (productionOptions\<lparr>deployUrl := Some ''''\<rparr>)) \<noteq> Some ('''' @ ''/'')"
  by (simp add: productionOptions_def addTrailingSlash_def endsWithSlash_def)

section \<open>Runs without the shell pipeline\<close>

text \<open>
  C6. When the client application \<^verbatim>\<open>getAppFromConfig\<close> returns has no
  \<^verbatim>\<open>appShell\<close>, the run calls the build task exactly once (with the normalised
  options), never calls the render task, and returns what that build returned, its result
  or its exception, in the world that build left; the options are arbitrary, so this holds
  for every target, AOT and skip-app-shell value.
\<close>

theorem no_shell_single_build:
  assumes "getAppFromConfig c (app options) = Inr clientApp"
    and "appShell clientApp = None"
  shows "calls (snd (run c options (init w))) =
      [GetAppFromConfig (app options), BuildTaskRun (addTrailingSlash options)] \<and>
    buildCalls (calls (snd (run c options (init w)))) = [addTrailingSlash options] \<and>
    renderCalls (calls (snd (run c options (init w)))) = [] \<and>
    fst (run c options (init w)) =
      (case fst (buildTask_run c (addTrailingSlash options) w) of
         Inl e \<Rightarrow> Inl (Thrown e) | Inr b \<Rightarrow> Inr (BuildTaskResult b)) \<and>
    world (snd (run c options (init w))) = snd (buildTask_run c (addTrailingSlash options) w)"
proof -
  obtain r w1 where b: "buildTask_run c (addTrailingSlash options) (world (init w)) = (r, w1)"
    by (cases "buildTask_run c (addTrailingSlash options) (world (init w))")
  from b have b': "buildTask_run c (addTrailingSlash options) w = (r, w1)"
    by (simp add: init_def)
  show ?thesis
    using run_client_only [OF assms(1) disjI1 [OF assms(2)] b] b'
    by (simp add: init_def)
qed

text \<open>
  Scenario A with a production build: the application \<^verbatim>\<open>plain\<close> has no shell, and
  the run is one resolution and one build, whose result it returns.
\<close>

theorem no_shell_single_build_witness:
  "getAppFromConfig (scenario ''server'' True) (app (productionOptions\<lparr>app := Some ''plain''\<rparr>)) =
     Inr (scenarioClientApp\<lparr>appShell := None\<rparr>) \<and>
   appShell (scenarioClientApp\<lparr>appShell := None\<rparr>) = None \<and>
   calls (snd (run (scenario ''server'' True) (productionOptions\<lparr>app := Some ''plain''\<rparr>) (init 0))) =
     [GetAppFromConfig (Some ''plain''),
      BuildTaskRun (productionOptions\<lparr>app := Some ''plain'',
        deployUrl := Some ''https://cdn.example.com/assets/''\<rparr>)] \<and>
   fst (run (scenario ''server'' True) (productionOptions\<lparr>app := Some ''plain''\<rparr>) (init 0)) =
     Inr (BuildTaskResult (Some ''plain''))"
  using no_shell_single_build [of "scenario ''server'' True" "productionOptions\<lparr>app := Some ''plain''\<rparr>"
    "scenarioClientApp\<lparr>appShell := None\<rparr>" 0]
  by (simp add: scenario_defs run_defs)

text \<open>
  C10. When the target is not \<^verbatim>\<open>production\<close>, or AOT is \<^verbatim>\<open>false\<close>, or
  skip-app-shell is \<^verbatim>\<open>true\<close>, the run resolves the client application only (the
  server application is never looked up), so the platform guard cannot fire whatever the
  shell of the client application names; the run is the client build and returns what
  that build returned.
\<close>

theorem not_eligible_no_guard:
  assumes "getAppFromConfig c (app options) = Inr clientApp"
    and "target options \<noteq> Some ''production'' \<or> aot options = Some False \<or>
         skipAppShell options = Some True"
  shows "calls (snd (run c options (init w))) =
      [GetAppFromConfig (app options), BuildTaskRun (addTrailingSlash options)] \<and>
    getAppCalls (calls (snd (run c options (init w)))) = [app options] \<and>
    fst (run c options (init w)) =
      (case fst (buildTask_run c (addTrailingSlash options) w) of
         Inl e \<Rightarrow> Inl (Thrown e) | Inr b \<Rightarrow> Inr (BuildTaskResult b)) \<and>
    fst (run c options (init w)) \<noteq> Inl (SilentError shellPlatformMessage)"
proof -
  have n: "\<not> doAppShell options"
    using assms(2) by (auto simp add: doAppShell_def truthy_bool_def)
  obtain r w1 where b: "buildTask_run c (addTrailingSlash options) (world (init w)) = (r, w1)"
    by (cases "buildTask_run c (addTrailingSlash options) (world (init w))")
  from b have b': "buildTask_run c (addTrailingSlash options) w = (r, w1)"
    by (simp add: init_def)
  show ?thesis
    using run_client_only [OF assms(1) disjI2 [OF n] b] b'
    by (simp add: init_def split: sum.splits)
qed

text \<open>
  A production build with AOT off, on the project whose shell names a browser
  application: the server application is not looked up and the run returns the result of
  the client build.
\<close>

theorem not_eligible_no_guard_witness:
  "getAppFromConfig (scenario ''browser'' True) (app (productionOptions\<lparr>aot := Some False\<rparr>)) =
     Inr scenarioClientApp \<and>
   appShell scenarioClientApp = Some \<lparr>appShell_app = ''ssr'', appShell_route = ''/''\<rparr> \<and>
   platform (scenarioServerApp ''browser'') = ''browser'' \<and>
   aot (productionOptions\<lparr>aot := Some False\<rparr>) = Some False \<and>
   getAppCalls (calls (snd (run (scenario ''browser'' True) (productionOptions\<lparr>aot := Some False\<rparr>) (init 0)))) =
     [None] \<and>
   fst (run (scenario ''browser'' True) (productionOptions\<lparr>aot := Some False\<rparr>) (init 0)) =
     Inr (BuildTaskResult None)"
  using not_eligible_no_guard [of "scenario ''browser'' True" "productionOptions\<lparr>aot := Some False\<rparr>"
    scenarioClientApp 0]
  by (simp add: scenario_defs run_defs)

section \<open>The platform guard\<close>

text \<open>
  C2. When the client application has a shell, the target is \<^verbatim>\<open>production\<close>, AOT
  is undefined or \<^verbatim>\<open>true\<close>, skip-app-shell is not \<^verbatim>\<open>true\<close>, and the server
  application the shell names resolves to a descriptor whose platform is not
  \<^verbatim>\<open>server\<close>, the run ends with the \<^verbatim>\<open>SilentError\<close> of the platform guard
  after the two resolutions: the build task and the render task are never called, and the
  world is untouched.
\<close>

theorem platform_guard_before_builds:
  assumes "getAppFromConfig c (app options) = Inr clientApp"
    and "appShell clientApp = Some sh"
    and "target options = Some ''production''"
    and "aot options = None \<or> aot options = Some True"
    and "skipAppShell options \<noteq> Some True"
    and "getAppFromConfig c (Some (appShell_app sh)) = Inr serverApp"
    and "platform serverApp \<noteq> ''server''"
  shows "run c options (init w) =
      (Inl (SilentError shellPlatformMessage),
       \<lparr>world = w,
        calls = [GetAppFromConfig (app options), GetAppFromConfig (Some (appShell_app sh))]\<rparr>) \<and>
    buildCalls (calls (snd (run c options (init w)))) = [] \<and>
    renderCalls (calls (snd (run c options (init w)))) = []"
proof -
  have d: "doAppShell options"
    using assms(3,4,5) by (simp add: doAppShell_def truthy_bool_def)
  show ?thesis
    using run_platform_mismatch [OF assms(1,2) d assms(6,7), of "init w"]
    by (simp add: init_def)
qed

text \<open>Scenario C: the shell names a browser application, and the run fails before any build.\<close>

theorem platform_guard_before_builds_witness:
  "getAppFromConfig (scenario ''browser'' True) (app productionOptions) = Inr scenarioClientApp \<and>
   appShell scenarioClientApp = Some \<lparr>appShell_app = ''ssr'', appShell_route = ''/''\<rparr> \<and>
   target productionOptions = Some ''production'' \<and>
   aot productionOptions = None \<and>
   skipAppShell productionOptions = Some False \<and>
   getAppFromConfig (scenario ''browser'' True) (Some ''ssr'') = Inr (scenarioServerApp ''browser'') \<and>
   platform (scenarioServerApp ''browser'') = ''browser'' \<and>
   run (scenario ''browser'' True) productionOptions (init 0) =
     (Inl (SilentError shellPlatformMessage),
      \<lparr>world = 0, calls = [GetAppFromConfig None, GetAppFromConfig (Some ''ssr'')]\<rparr>)"
  using platform_guard_before_builds [of "scenario ''browser'' True" productionOptions scenarioClientApp
    "\<lparr>appShell_app = ''ssr'', appShell_route = ''/''\<rparr>" "scenarioServerApp ''browser''" 0]
  by (simp add: scenario_defs run_defs)

section \<open>The shell pipeline\<close>

text \<open>The test \<^verbatim>\<open>doAppShell\<close> in terms of the three options it reads.\<close>


lemma doAppShell_iff:
  "doAppShell options \<longleftrightarrow>
     target options = Some ''production'' \<and> (aot options = None \<or> aot options = Some True) \<and>
     skipAppShell options \<noteq> Some True"
  by (simp add: doAppShell_def truthy_bool_def)

text \<open>
  C4. When the shell pipeline runs to completion (the client application has a shell, the
  options are eligible, the server application resolves with platform \<^verbatim>\<open>server\<close>,
  and both builds and the render succeed), the render task is called once, with
  \<^verbatim>\<open>inputIndexPath\<close> the join of the project root, the client's output directory
  and the client's index document, \<^verbatim>\<open>route\<close> the route of the shell,
  \<^verbatim>\<open>serverOutDir\<close> the join of the project root and the server's output
  directory, and \<^verbatim>\<open>outputIndexPath\<close> the same path as \<^verbatim>\<open>inputIndexPath\<close>;
  the run returns the result of the render, whatever the two builds returned.
\<close>

theorem render_options_and_result:
  assumes "getAppFromConfig c (app options) = Inr clientApp"
    and "appShell clientApp = Some sh"
    and "target options = Some ''production''"
    and "aot options = None \<or> aot options = Some True"
    and "skipAppShell options \<noteq> Some True"
    and "getAppFromConfig c (Some (appShell_app sh)) = Inr serverApp"
    and "platform serverApp = ''server''"
    and "buildTask_run c (addTrailingSlash options) w = (Inr b1, w1)"
    and "buildTask_run c ((addTrailingSlash options)\<lparr>app := Some (appShell_app sh)\<rparr>) w1 = (Inr b2, w2)"
    and "ro = \<lparr>inputIndexPath = join c [project_root c, outDir clientApp, index clientApp],
               route = appShell_route sh,
               serverOutDir = join c [project_root c, outDir serverApp],
               outputIndexPath = join c [project_root c, outDir clientApp, index clientApp]\<rparr>"
    and "renderUniversalTask_run c ro w2 = (Inr v, w3)"
  shows "renderCalls (calls (snd (run c options (init w)))) = [ro] \<and>
    outputIndexPath ro = inputIndexPath ro \<and>
    fst (run c options (init w)) = Inr (RenderUniversalTaskResult v) \<and>
    world (snd (run c options (init w))) = w3"
proof -
  have d: "doAppShell options"
    using assms(3,4,5) by (simp add: doAppShell_iff)
  have b1: "buildTask_run c (addTrailingSlash options) (world (init w)) = (Inr b1, w1)"
    using assms(8) by (simp add: init_def)
  show ?thesis
    using run_shell_pipeline [OF assms(1,2) d assms(6,7) b1 assms(9,10,11)] assms(10)
    by (simp add: init_def)
qed

text \<open>
  Scenario B: the render task is asked to read and to write
  \<^verbatim>\<open>/proj/dist/index.html\<close>, and the run returns its result.
\<close>

theorem render_options_and_result_witness:
  "getAppFromConfig (scenario ''server'' True) (app productionOptions) = Inr scenarioClientApp \<and>
   appShell scenarioClientApp = Some \<lparr>appShell_app = ''ssr'', appShell_route = ''/''\<rparr> \<and>
   target productionOptions = Some ''production'' \<and>
   aot productionOptions = None \<and>
   skipAppShell productionOptions = Some False \<and>
   getAppFromConfig (scenario ''server'' True) (Some ''ssr'') = Inr (scenarioServerApp ''server'') \<and>
   platform (scenarioServerApp ''server'') = ''server'' \<and>
   renderCalls (calls (snd (run (scenario ''server'' True) productionOptions (init 0)))) =
     [\<lparr>inputIndexPath = ''/proj/dist/index.html'', route = ''/'',
       serverOutDir = ''/proj/dist-server'', outputIndexPath = ''/proj/dist/index.html''\<rparr>] \<and>
   fst (run (scenario ''server'' True) productionOptions (init 0)) =
     Inr (RenderUniversalTaskResult ''/proj/dist/index.html'')"
  using render_options_and_result [of "scenario ''server'' True" productionOptions scenarioClientApp
    "\<lparr>appShell_app = ''ssr'', appShell_route = ''/''\<rparr>" "scenarioServerApp ''server''" 0
    None 1 "Some ''ssr''" 2
    "\<lparr>inputIndexPath = ''/proj/dist/index.html'', route = ''/'',
       serverOutDir = ''/proj/dist-server'', outputIndexPath = ''/proj/dist/index.html''\<rparr>"
    "''/proj/dist/index.html''" 3]
  by (simp add: scenario_defs run_defs)

text \<open>
  C5. When the shell pipeline is eligible and the run reaches the server build (the guard
  passes and the client build succeeds), the build task is called twice: with the
  normalised options, then with a copy of them in which \<^verbatim>\<open>app\<close> is the
  application the shell names. In every run, each build call receives options that
  differ from the normalised options of the caller in the field \<^verbatim>\<open>app\<close> at most:
  every other field, the normalised deploy URL among them, is the one the client build
  was given.
\<close>

theorem server_options_frame:
  "(getAppFromConfig c (app options) = Inr clientApp \<and>
    appShell clientApp = Some sh \<and>
    target options = Some ''production'' \<and>
    (aot options = None \<or> aot options = Some True) \<and>
    skipAppShell options \<noteq> Some True \<and>
    getAppFromConfig c (Some (appShell_app sh)) = Inr serverApp \<and>
    platform serverApp = ''server'' \<and>
    fst (buildTask_run c (addTrailingSlash options) w) = Inr b1 \<longrightarrow>
      buildCalls (calls (snd (run c options (init w)))) =
        [addTrailingSlash options, (addTrailingSlash options)\<lparr>app := Some (appShell_app sh)\<rparr>]) \<and>
   (\<forall>x \<in> set (buildCalls (calls (snd (run c options (init w))))).
      x\<lparr>app := app options\<rparr> = addTrailingSlash options \<and>
      deployUrl x = deployUrl (addTrailingSlash options))"
proof -
  have a: "buildCalls (calls (snd (run c options (init w)))) =
        [addTrailingSlash options, (addTrailingSlash options)\<lparr>app := Some (appShell_app sh)\<rparr>]"
    if h: "getAppFromConfig c (app options) = Inr clientApp" "appShell clientApp = Some sh"
      "doAppShell options" "getAppFromConfig c (Some (appShell_app sh)) = Inr serverApp"
      "platform serverApp = ''server''"
      "fst (buildTask_run c (addTrailingSlash options) w) = Inr b1"
  proof -
    obtain w1 where b1: "buildTask_run c (addTrailingSlash options) (world (init w)) = (Inr b1, w1)"
      using h(6) by (cases "buildTask_run c (addTrailingSlash options) w") (simp add: init_def)
    obtain r2 w2 where b2:
      "buildTask_run c ((addTrailingSlash options)\<lparr>app := Some (appShell_app sh)\<rparr>) w1 = (r2, w2)"
      by (cases "buildTask_run c ((addTrailingSlash options)\<lparr>app := Some (appShell_app sh)\<rparr>) w1")
    show ?thesis
    proof (cases r2)
      case (Inl e)
      with run_server_build_fails [OF h(1-5) b1] b2 show ?thesis
        by (simp add: init_def)
    next
      case (Inr b2')
      obtain r w3 where rr: "renderUniversalTask_run c
          \<lparr>inputIndexPath = join c [project_root c, outDir clientApp, index clientApp],
           route = appShell_route sh,
           serverOutDir = join c [project_root c, outDir serverApp],
           outputIndexPath = join c [project_root c, outDir clientApp, index clientApp]\<rparr> w2 = (r, w3)"
        by (cases "renderUniversalTask_run c
          \<lparr>inputIndexPath = join c [project_root c, outDir clientApp, index clientApp],
           route = appShell_route sh,
           serverOutDir = join c [project_root c, outDir serverApp],
           outputIndexPath = join c [project_root c, outDir clientApp, index clientApp]\<rparr> w2")
      from Inr b2 have b2': "buildTask_run c ((addTrailingSlash options)\<lparr>app := Some (appShell_app sh)\<rparr>) w1
          = (Inr b2', w2)" by simp
      show ?thesis
        using run_shell_pipeline [OF h(1-5) b1 b2' refl rr]
        by (simp add: init_def)
    qed
  qed
  have b: "x\<lparr>app := app options\<rparr> = addTrailingSlash options \<and>
      deployUrl x = deployUrl (addTrailingSlash options)"
    if "x \<in> set (buildCalls (calls (snd (run c options (init w)))))" for x
  proof -
    have f: "x\<lparr>app := app options\<rparr> = addTrailingSlash options"
      using run_buildCalls_frame [OF that] .
    have "deployUrl x = deployUrl (x\<lparr>app := app options\<rparr>)" by simp
    also have "\<dots> = deployUrl (addTrailingSlash options)" using f by (rule arg_cong)
    finally have g: "deployUrl x = deployUrl (addTrailingSlash options)" .
    from f g show ?thesis by blast
  qed
  from a b show ?thesis
    unfolding doAppShell_iff by blast
qed

text \<open>Scenario B again: the two build calls differ in \<^verbatim>\<open>app\<close> only.\<close>

theorem server_options_frame_witness:
  "getAppFromConfig (scenario ''server'' True) (app productionOptions) = Inr scenarioClientApp \<and>
   appShell scenarioClientApp = Some \<lparr>appShell_app = ''ssr'', appShell_route = ''/''\<rparr> \<and>
   target productionOptions = Some ''production'' \<and>
   aot productionOptions = None \<and>
   skipAppShell productionOptions = Some False \<and>
   getAppFromConfig (scenario ''server'' True) (Some ''ssr'') = Inr (scenarioServerApp ''server'') \<and>
   platform (scenarioServerApp ''server'') = ''server'' \<and>
   fst (buildTask_run (scenario ''server'' True) (addTrailingSlash productionOptions) 0) = Inr None \<and>
   buildCalls (calls (snd (run (scenario ''server'' True) productionOptions (init 0)))) =
     [productionOptions\<lparr>deployUrl := Some ''https://cdn.example.com/assets/''\<rparr>,
      productionOptions\<lparr>deployUrl := Some ''https://cdn.example.com/assets/'', app := Some ''ssr''\<rparr>]"
  using server_options_frame [of "scenario ''server'' True" productionOptions scenarioClientApp
    "\<lparr>appShell_app = ''ssr'', appShell_route = ''/''\<rparr>" "scenarioServerApp ''server''" 0 None]
  by (simp add: scenario_defs run_defs)

section \<open>Case analysis of a run\<close>

text \<open>
  The seven ways through \<^verbatim>\<open>run\<close>, as a rule for proofs by cases: each case gives
  what the collaborators returned on the way and the outcome of the run.
\<close>

lemma run_cases [case_names client_unresolved client_only server_unresolved platform_mismatch
    client_build_fails server_build_fails shell_pipeline]:
  obtains
    e where "getAppFromConfig c (app options) = Inl e"
      and "run c options s =
        (Inl (Thrown e), s\<lparr>calls := calls s @ [GetAppFromConfig (app options)]\<rparr>)"
  | clientApp r w1 where "getAppFromConfig c (app options) = Inr clientApp"
      and "appShell clientApp = None \<or> \<not> doAppShell options"
      and "buildTask_run c (addTrailingSlash options) (world s) = (r, w1)"
      and "run c options s =
        (case r of Inl e \<Rightarrow> Inl (Thrown e) | Inr b \<Rightarrow> Inr (BuildTaskResult b),
         \<lparr>world = w1,
          calls = calls s @
            [GetAppFromConfig (app options), BuildTaskRun (addTrailingSlash options)]\<rparr>)"
  | clientApp sh e where "getAppFromConfig c (app options) = Inr clientApp"
      and "appShell clientApp = Some sh" and "doAppShell options"
      and "getAppFromConfig c (Some (appShell_app sh)) = Inl e"
      and "run c options s =
        (Inl (Thrown e),
         s\<lparr>calls := calls s @
            [GetAppFromConfig (app options), GetAppFromConfig (Some (appShell_app sh))]\<rparr>)"
  | clientApp sh serverApp where "getAppFromConfig c (app options) = Inr clientApp"
      and "appShell clientApp = Some sh" and "doAppShell options"
      and "getAppFromConfig c (Some (appShell_app sh)) = Inr serverApp"
      and "platform serverApp \<noteq> ''server''"
      and "run c options s =
        (Inl (SilentError shellPlatformMessage),
         s\<lparr>calls := calls s @
            [GetAppFromConfig (app options), GetAppFromConfig (Some (appShell_app sh))]\<rparr>)"
  | clientApp sh serverApp e w1 where "getAppFromConfig c (app options) = Inr clientApp"
      and "appShell clientApp = Some sh" and "doAppShell options"
      and "getAppFromConfig c (Some (appShell_app sh)) = Inr serverApp"
      and "platform serverApp = ''server''"
      and "buildTask_run c (addTrailingSlash options) (world s) = (Inl e, w1)"
      and "run c options s =
        (Inl (Thrown e),
         \<lparr>world = w1,
          calls = calls s @
            [GetAppFromConfig (app options), GetAppFromConfig (Some (appShell_app sh)),
             BuildTaskRun (addTrailingSlash options)]\<rparr>)"
  | clientApp sh serverApp b1 w1 e w2 where "getAppFromConfig c (app options) = Inr clientApp"
      and "appShell clientApp = Some sh" and "doAppShell options"
      and "getAppFromConfig c (Some (appShell_app sh)) = Inr serverApp"
      and "platform serverApp = ''server''"
      and "buildTask_run c (addTrailingSlash options) (world s) = (Inr b1, w1)"
      and "buildTask_run c ((addTrailingSlash options)\<lparr>app := Some (appShell_app sh)\<rparr>) w1 =
        (Inl e, w2)"
      and "run c options s =
        (Inl (Thrown e),
         \<lparr>world = w2,
          calls = calls s @
            [GetAppFromConfig (app options), GetAppFromConfig (Some (appShell_app sh)),
             BuildTaskRun (addTrailingSlash options),
             BuildTaskRun ((addTrailingSlash options)\<lparr>app := Some (appShell_app sh)\<rparr>)]\<rparr>)"
  | clientApp sh serverApp b1 w1 b2 w2 r w3 where "getAppFromConfig c (app options) = Inr clientApp"
      and "appShell clientApp = Some sh" and "doAppShell options"
      and "getAppFromConfig c (Some (appShell_app sh)) = Inr serverApp"
      and "platform serverApp = ''server''"
      and "buildTask_run c (addTrailingSlash options) (world s) = (Inr b1, w1)"
      and "buildTask_run c ((addTrailingSlash options)\<lparr>app := Some (appShell_app sh)\<rparr>) w1 =
        (Inr b2, w2)"
      and "renderUniversalTask_run c
          \<lparr>inputIndexPath = join c [project_root c, outDir clientApp, index clientApp],
           route = appShell_route sh,
           serverOutDir = join c [project_root c, outDir serverApp],
           outputIndexPath = join c [project_root c, outDir clientApp, index clientApp]\<rparr> w2 =
        (r, w3)"
      and "run c options s =
        (case r of Inl e \<Rightarrow> Inl (Thrown e) | Inr v \<Rightarrow> Inr (RenderUniversalTaskResult v),
         \<lparr>world = w3,
          calls = calls s @
            [GetAppFromConfig (app options), GetAppFromConfig (Some (appShell_app sh)),
             BuildTaskRun (addTrailingSlash options),
             BuildTaskRun ((addTrailingSlash options)\<lparr>app := Some (appShell_app sh)\<rparr>),
             RenderUniversalTaskRun
               \<lparr>inputIndexPath = join c [project_root c, outDir clientApp, index clientApp],
                route = appShell_route sh,
                serverOutDir = join c [project_root c, outDir serverApp],
                outputIndexPath = join c [project_root c, outDir clientApp, index clientApp]\<rparr>]\<rparr>)"
proof (cases "getAppFromConfig c (app options)")
  case (Inl e)
  show thesis
    by (rule that(1) [OF Inl run_client_unresolved [OF Inl]])
next
  case client: (Inr clientApp)
  obtain r1 w1 where b1: "buildTask_run c (addTrailingSlash options) (world s) = (r1, w1)"
    by (cases "buildTask_run c (addTrailingSlash options) (world s)")
  show thesis
  proof (cases "appShell clientApp = None \<or> \<not> doAppShell options")
    case True
    show thesis
      by (rule that(2) [OF client True b1 run_client_only [OF client True b1]])
  next
    case False
    then obtain sh where sh: "appShell clientApp = Some sh" and d: "doAppShell options"
      by auto
    show thesis
    proof (cases "getAppFromConfig c (Some (appShell_app sh))")
      case (Inl e)
      show thesis
        by (rule that(3) [OF client sh d Inl run_server_unresolved [OF client sh d Inl]])
    next
      case server: (Inr serverApp)
      show thesis
      proof (cases "platform serverApp = ''server''")
        case False
        show thesis
          by (rule that(4) [OF client sh d server False
                run_platform_mismatch [OF client sh d server False]])
      next
        case p: True
        show thesis
        proof (cases r1)
          case (Inl e)
          with b1 have f: "buildTask_run c (addTrailingSlash options) (world s) = (Inl e, w1)"
            by simp
          show thesis
            by (rule that(5) [OF client sh d server p f
                  run_client_build_fails [OF client sh d server p f]])
        next
          case (Inr b)
          with b1 have b1': "buildTask_run c (addTrailingSlash options) (world s) = (Inr b, w1)"
            by simp
          obtain r2 w2 where b2:
            "buildTask_run c ((addTrailingSlash options)\<lparr>app := Some (appShell_app sh)\<rparr>) w1 = (r2, w2)"
            by (cases "buildTask_run c ((addTrailingSlash options)\<lparr>app := Some (appShell_app sh)\<rparr>) w1")
          show thesis
          proof (cases r2)
            case (Inl e)
            with b2 have f: "buildTask_run c ((addTrailingSlash options)\<lparr>app := Some (appShell_app sh)\<rparr>) w1
                = (Inl e, w2)" by simp
            show thesis
              by (rule that(6) [OF client sh d server p b1' f
                    run_server_build_fails [OF client sh d server p b1' f]])
          next
            case (Inr b')
            with b2 have b2': "buildTask_run c ((addTrailingSlash options)\<lparr>app := Some (appShell_app sh)\<rparr>) w1
                = (Inr b', w2)" by simp
            obtain r w3 where rr: "renderUniversalTask_run c
                \<lparr>inputIndexPath = join c [project_root c, outDir clientApp, index clientApp],
                 route = appShell_route sh,
                 serverOutDir = join c [project_root c, outDir serverApp],
                 outputIndexPath = join c [project_root c, outDir clientApp, index clientApp]\<rparr> w2 = (r, w3)"
              by (cases "renderUniversalTask_run c
                \<lparr>inputIndexPath = join c [project_root c, outDir clientApp, index clientApp],
                 route = appShell_route sh,
                 serverOutDir = join c [project_root c, outDir serverApp],
                 outputIndexPath = join c [project_root c, outDir clientApp, index clientApp]\<rparr> w2")
            show thesis
              by (rule that(7) [OF client sh d server p b1' b2' rr
                    run_shell_pipeline [OF client sh d server p b1' b2' refl rr]])
          qed
        qed
      qed
    qed
  qed
qed

text \<open>A run only adds calls to the log.\<close>

lemma run_calls_prefix: "take (length (calls s)) (calls (snd (run c options s))) = calls s"
  by (cases rule: run_cases [of c options s]) simp_all

section \<open>When the shell pipeline runs, and in which order\<close>

text \<open>
  The test \<^verbatim>\<open>!options.skipAppShell\<close> holds when skip-app-shell is \<^verbatim>\<open>false\<close>
  or undefined.
\<close>

lemma doAppShell_skip:
  "doAppShell options \<longleftrightarrow>
     target options = Some ''production'' \<and> (aot options = None \<or> aot options = Some True) \<and>
     (skipAppShell options = Some False \<or> skipAppShell options = None)"
  by (cases "skipAppShell options") (auto simp add: doAppShell_def truthy_bool_def)


text \<open>
  C7, amended. In every run in which the server build is called, the client build was
  called before it and succeeded, and the server build starts in the world the client
  build left. When the server build succeeds the render is called next, in the world the
  server build left, and the run returns the result of the render when the render
  succeeds and ends with the exception of the render when it fails. When the server build
  fails no render is called and the run ends with the exception of the server build. The
  task calls are the client build, the server build and the render, in this order, each
  awaited before the next begins.
\<close>

theorem shell_pipeline_sequence:
  assumes "serverBuildCalled (calls (snd (run c options (init w))))"
  shows "\<exists>clientApp sh serverApp b1 w1 r2 w2 ro r3 w3.
    getAppFromConfig c (app options) = Inr clientApp \<and>
    appShell clientApp = Some sh \<and>
    getAppFromConfig c (Some (appShell_app sh)) = Inr serverApp \<and>
    ro = \<lparr>inputIndexPath = join c [project_root c, outDir clientApp, index clientApp],
          route = appShell_route sh,
          serverOutDir = join c [project_root c, outDir serverApp],
          outputIndexPath = join c [project_root c, outDir clientApp, index clientApp]\<rparr> \<and>
    buildTask_run c (addTrailingSlash options) w = (Inr b1, w1) \<and>
    buildTask_run c ((addTrailingSlash options)\<lparr>app := Some (appShell_app sh)\<rparr>) w1 = (r2, w2) \<and>
    renderUniversalTask_run c ro w2 = (r3, w3) \<and>
    run c options (init w) =
      (case r2 of
         Inl e \<Rightarrow>
           (Inl (Thrown e),
            \<lparr>world = w2,
             calls =
               [GetAppFromConfig (app options), GetAppFromConfig (Some (appShell_app sh)),
                BuildTaskRun (addTrailingSlash options),
                BuildTaskRun ((addTrailingSlash options)\<lparr>app := Some (appShell_app sh)\<rparr>)]\<rparr>)
       | Inr b2 \<Rightarrow>
           (case r3 of Inl e \<Rightarrow> Inl (Thrown e) | Inr v \<Rightarrow> Inr (RenderUniversalTaskResult v),
            \<lparr>world = w3,
             calls =
               [GetAppFromConfig (app options), GetAppFromConfig (Some (appShell_app sh)),
                BuildTaskRun (addTrailingSlash options),
                BuildTaskRun ((addTrailingSlash options)\<lparr>app := Some (appShell_app sh)\<rparr>),
                RenderUniversalTaskRun ro]\<rparr>)) \<and>
    (shellPipelineRuns (calls (snd (run c options (init w)))) \<longleftrightarrow> (\<exists>b2. r2 = Inr b2))"
proof (cases rule: run_cases [of c options "init w"])
  case (client_unresolved e)
  with assms show ?thesis by (simp add: init_def serverBuildCalled_def)
next
  case (client_only clientApp r w1)
  with assms show ?thesis by (simp add: init_def serverBuildCalled_def)
next
  case (server_unresolved clientApp sh e)
  with assms show ?thesis by (simp add: init_def serverBuildCalled_def)
next
  case (platform_mismatch clientApp sh serverApp)
  with assms show ?thesis by (simp add: init_def serverBuildCalled_def)
next
  case (client_build_fails clientApp sh serverApp e w1)
  with assms show ?thesis by (simp add: init_def serverBuildCalled_def)
next
  case (server_build_fails clientApp sh serverApp b1 w1 e w2)
  let ?ro = "\<lparr>inputIndexPath = join c [project_root c, outDir clientApp, index clientApp],
          route = appShell_route sh,
          serverOutDir = join c [project_root c, outDir serverApp],
          outputIndexPath = join c [project_root c, outDir clientApp, index clientApp]\<rparr>"
  obtain r3 w3 where rr: "renderUniversalTask_run c ?ro w2 = (r3, w3)"
    by (cases "renderUniversalTask_run c ?ro w2")
  from server_build_fails(6) have b1: "buildTask_run c (addTrailingSlash options) w = (Inr b1, w1)"
    by (simp add: init_def)
  from server_build_fails(8) have out: "run c options (init w) =
      (case (Inl e :: 'b + 'c) of
         Inl e \<Rightarrow>
           (Inl (Thrown e),
            \<lparr>world = w2,
             calls =
               [GetAppFromConfig (app options), GetAppFromConfig (Some (appShell_app sh)),
                BuildTaskRun (addTrailingSlash options),
                BuildTaskRun ((addTrailingSlash options)\<lparr>app := Some (appShell_app sh)\<rparr>)]\<rparr>)
       | Inr b2 \<Rightarrow>
           (case r3 of Inl e \<Rightarrow> Inl (Thrown e) | Inr v \<Rightarrow> Inr (RenderUniversalTaskResult v),
            \<lparr>world = w3,
             calls =
               [GetAppFromConfig (app options), GetAppFromConfig (Some (appShell_app sh)),
                BuildTaskRun (addTrailingSlash options),
                BuildTaskRun ((addTrailingSlash options)\<lparr>app := Some (appShell_app sh)\<rparr>),
                RenderUniversalTaskRun ?ro]\<rparr>))"
    by (simp add: init_def)
  from server_build_fails(8) have runs:
    "shellPipelineRuns (calls (snd (run c options (init w)))) \<longleftrightarrow> (\<exists>b2. (Inl e :: 'b + 'c) = Inr b2)"
    by (simp add: init_def shellPipelineRuns_def)
  from server_build_fails(1,2,4,7) b1 rr out runs show ?thesis by blast
next
  case (shell_pipeline clientApp sh serverApp b1 w1 b2 w2 r w3)
  let ?ro = "\<lparr>inputIndexPath = join c [project_root c, outDir clientApp, index clientApp],
          route = appShell_route sh,
          serverOutDir = join c [project_root c, outDir serverApp],
          outputIndexPath = join c [project_root c, outDir clientApp, index clientApp]\<rparr>"
  from shell_pipeline(6) have b1: "buildTask_run c (addTrailingSlash options) w = (Inr b1, w1)"
    by (simp add: init_def)
  from shell_pipeline(9) have out: "run c options (init w) =
      (case (Inr b2 :: 'b + 'c) of
         Inl e \<Rightarrow>
           (Inl (Thrown e),
            \<lparr>world = w2,
             calls =
               [GetAppFromConfig (app options), GetAppFromConfig (Some (appShell_app sh)),
                BuildTaskRun (addTrailingSlash options),
                BuildTaskRun ((addTrailingSlash options)\<lparr>app := Some (appShell_app sh)\<rparr>)]\<rparr>)
       | Inr b2 \<Rightarrow>
           (case r of Inl e \<Rightarrow> Inl (Thrown e) | Inr v \<Rightarrow> Inr (RenderUniversalTaskResult v),
            \<lparr>world = w3,
             calls =
               [GetAppFromConfig (app options), GetAppFromConfig (Some (appShell_app sh)),
                BuildTaskRun (addTrailingSlash options),
                BuildTaskRun ((addTrailingSlash options)\<lparr>app := Some (appShell_app sh)\<rparr>),
                RenderUniversalTaskRun ?ro]\<rparr>))"
    by (simp add: init_def)
  from shell_pipeline(9) have runs:
    "shellPipelineRuns (calls (snd (run c options (init w)))) \<longleftrightarrow> (\<exists>b. (Inr b2 :: 'b + 'c) = Inr b)"
    by (simp add: init_def shellPipelineRuns_def)
  from shell_pipeline(1,2,4,7,8) b1 out runs show ?thesis by blast
qed

text \<open>
  Scenario B, where every stage succeeds; the same project when the server build is
  rejected; and when the render is rejected.
\<close>

theorem shell_pipeline_sequence_witness:
  "serverBuildCalled (calls (snd (run (scenario ''server'' True) productionOptions (init 0)))) \<and>
   run (scenario ''server'' True) productionOptions (init 0) =
     (Inr (RenderUniversalTaskResult ''/proj/dist/index.html''),
      \<lparr>world = 3,
       calls =
         [GetAppFromConfig None, GetAppFromConfig (Some ''ssr''),
          BuildTaskRun (productionOptions\<lparr>deployUrl := Some ''https://cdn.example.com/assets/''\<rparr>),
          BuildTaskRun (productionOptions\<lparr>deployUrl := Some ''https://cdn.example.com/assets/'',
            app := Some ''ssr''\<rparr>),
          RenderUniversalTaskRun
            \<lparr>inputIndexPath = ''/proj/dist/index.html'', route = ''/'',
             serverOutDir = ''/proj/dist-server'',
             outputIndexPath = ''/proj/dist/index.html''\<rparr>]\<rparr>) \<and>
   serverBuildCalled
     (calls (snd (run (scenarioBuildFails (Some ''ssr'')) productionOptions (init 0)))) \<and>
   run (scenarioBuildFails (Some ''ssr'')) productionOptions (init 0) =
     (Inl (Thrown ''build failed''),
      \<lparr>world = 2,
       calls =
         [GetAppFromConfig None, GetAppFromConfig (Some ''ssr''),
          BuildTaskRun (productionOptions\<lparr>deployUrl := Some ''https://cdn.example.com/assets/''\<rparr>),
          BuildTaskRun (productionOptions\<lparr>deployUrl := Some ''https://cdn.example.com/assets/'',
            app := Some ''ssr''\<rparr>)]\<rparr>) \<and>
   serverBuildCalled (calls (snd (run scenarioRenderFails productionOptions (init 0)))) \<and>
   fst (run scenarioRenderFails productionOptions (init 0)) = Inl (Thrown ''render failed'') \<and>
   world (snd (run scenarioRenderFails productionOptions (init 0))) = 3"
  using shell_pipeline_sequence [of "scenario ''server'' True" productionOptions 0]
    shell_pipeline_sequence [of "scenarioBuildFails (Some ''ssr'')" productionOptions 0]
    shell_pipeline_sequence [of scenarioRenderFails productionOptions 0]
  by (simp add: scenario_defs run_defs serverBuildCalled_def)

text \<open>
  The claim as first stated fails when a stage of the pipeline is rejected. When the
  render is rejected the pipeline has run, server build then render, and the run returns
  no render result: it ends with the exception. When the server build is rejected the
  server build has been called, the render is never called, and the run ends with the
  exception of the build.
\<close>

theorem shell_pipeline_sequence_counterexample:
  "shellPipelineRuns (calls (snd (run scenarioRenderFails productionOptions (init 0)))) \<and>
   fst (run scenarioRenderFails productionOptions (init 0)) = Inl (Thrown ''render failed'') \<and>
   serverBuildCalled
     (calls (snd (run (scenarioBuildFails (Some ''ssr'')) productionOptions (init 0)))) \<and>
   renderCalls (calls (snd (run (scenarioBuildFails (Some ''ssr'')) productionOptions (init 0)))) = [] \<and>
   fst (run (scenarioBuildFails (Some ''ssr'')) productionOptions (init 0)) =
     Inl (Thrown ''build failed'')"
  by (simp add: scenario_defs run_defs serverBuildCalled_def shellPipelineRuns_def)

text \<open>
  C1, amended. The shell pipeline, the server build followed by the render, runs if and
  only if the target is \<^verbatim>\<open>production\<close>, AOT is undefined or \<^verbatim>\<open>true\<close>,
  skip-app-shell is \<^verbatim>\<open>false\<close> or undefined, the client application resolves to a
  descriptor with a shell, and moreover the server application the shell names resolves
  to a descriptor whose platform is \<^verbatim>\<open>server\<close>, the client build succeeds and the
  server build succeeds. The decision is taken before any build executes: every
  descriptor is resolved before the first build call, and when the three conditions on
  the options hold and the client application has a shell, a build is called only after
  the server application has resolved with platform \<^verbatim>\<open>server\<close>. It does not change
  mid-run: the server build is called exactly when the server application was resolved
  before the first build and the client build succeeds. The source tests the shell and
  the flag \<^verbatim>\<open>doAppShell\<close> before the client build and again after it; both tests
  read the same flag and the same resolved descriptor, which is a value here.
\<close>

theorem shell_pipeline_decision:
  "(shellPipelineRuns (calls (snd (run c options (init w)))) \<longleftrightarrow>
      target options = Some ''production'' \<and>
      (aot options = None \<or> aot options = Some True) \<and>
      (skipAppShell options = Some False \<or> skipAppShell options = None) \<and>
      (\<exists>clientApp sh serverApp b1 w1 b2.
         getAppFromConfig c (app options) = Inr clientApp \<and>
         appShell clientApp = Some sh \<and>
         getAppFromConfig c (Some (appShell_app sh)) = Inr serverApp \<and>
         platform serverApp = ''server'' \<and>
         buildTask_run c (addTrailingSlash options) w = (Inr b1, w1) \<and>
         fst (buildTask_run c ((addTrailingSlash options)\<lparr>app := Some (appShell_app sh)\<rparr>) w1) =
           Inr b2)) \<and>
   getAppCalls (beforeBuild (calls (snd (run c options (init w))))) =
     getAppCalls (calls (snd (run c options (init w)))) \<and>
   (buildCalls (calls (snd (run c options (init w)))) \<noteq> [] \<and>
    target options = Some ''production'' \<and>
    (aot options = None \<or> aot options = Some True) \<and>
    (skipAppShell options = Some False \<or> skipAppShell options = None) \<and>
    getAppFromConfig c (app options) = Inr clientApp \<and>
    appShell clientApp = Some sh \<longrightarrow>
      (\<exists>serverApp.
         getAppFromConfig c (Some (appShell_app sh)) = Inr serverApp \<and>
         platform serverApp = ''server'') \<and>
      beforeBuild (calls (snd (run c options (init w)))) =
        [GetAppFromConfig (app options), GetAppFromConfig (Some (appShell_app sh))]) \<and>
   (serverBuildCalled (calls (snd (run c options (init w)))) \<longleftrightarrow>
      length (beforeBuild (calls (snd (run c options (init w))))) = 2 \<and>
      buildCalls (calls (snd (run c options (init w)))) \<noteq> [] \<and>
      (\<exists>b. fst (buildTask_run c (addTrailingSlash options) w) = Inr b))"
proof (cases rule: run_cases [of c options "init w"])
  case (client_unresolved e)
  then show ?thesis
    by (auto simp add: init_def shellPipelineRuns_def serverBuildCalled_def)
next
  case (client_only clientApp' r w1)
  then show ?thesis
    by (auto simp add: init_def shellPipelineRuns_def serverBuildCalled_def doAppShell_skip)
next
  case (server_unresolved clientApp' sh' e)
  then show ?thesis
    by (auto simp add: init_def shellPipelineRuns_def serverBuildCalled_def)
next
  case (platform_mismatch clientApp' sh' serverApp)
  then show ?thesis
    by (auto simp add: init_def shellPipelineRuns_def serverBuildCalled_def)
next
  case (client_build_fails clientApp' sh' serverApp e w1)
  then show ?thesis
    by (auto simp add: init_def shellPipelineRuns_def serverBuildCalled_def)
next
  case (server_build_fails clientApp' sh' serverApp b1 w1 e w2)
  then show ?thesis
    by (auto simp add: init_def shellPipelineRuns_def serverBuildCalled_def doAppShell_skip)
next
  case (shell_pipeline clientApp' sh' serverApp b1 w1 b2 w2 r w3)
  then show ?thesis
    by (auto simp add: init_def shellPipelineRuns_def serverBuildCalled_def doAppShell_skip)
qed

text \<open>
  Scenario B, where the pipeline runs, every condition holds and both resolutions precede
  the first build; and the same project built for development, where the pipeline does
  not run.
\<close>

theorem shell_pipeline_decision_witness:
  "shellPipelineRuns (calls (snd (run (scenario ''server'' True) productionOptions (init 0)))) \<and>
   target productionOptions = Some ''production'' \<and>
   aot productionOptions = None \<and>
   skipAppShell productionOptions = Some False \<and>
   getAppFromConfig (scenario ''server'' True) (app productionOptions) = Inr scenarioClientApp \<and>
   appShell scenarioClientApp = Some \<lparr>appShell_app = ''ssr'', appShell_route = ''/''\<rparr> \<and>
   getAppFromConfig (scenario ''server'' True) (Some ''ssr'') = Inr (scenarioServerApp ''server'') \<and>
   platform (scenarioServerApp ''server'') = ''server'' \<and>
   buildTask_run (scenario ''server'' True) (addTrailingSlash productionOptions) 0 = (Inr None, 1) \<and>
   fst (buildTask_run (scenario ''server'' True)
     ((addTrailingSlash productionOptions)\<lparr>app := Some ''ssr''\<rparr>) 1) = Inr (Some ''ssr'') \<and>
   buildCalls (calls (snd (run (scenario ''server'' True) productionOptions (init 0)))) \<noteq> [] \<and>
   beforeBuild (calls (snd (run (scenario ''server'' True) productionOptions (init 0)))) =
     [GetAppFromConfig None, GetAppFromConfig (Some ''ssr'')] \<and>
   getAppCalls (calls (snd (run (scenario ''server'' True) productionOptions (init 0)))) =
     [None, Some ''ssr''] \<and>
   serverBuildCalled (calls (snd (run (scenario ''server'' True) productionOptions (init 0)))) \<and>
   \<not> shellPipelineRuns (calls (snd (run (scenario ''server'' True)
        (productionOptions\<lparr>target := Some ''development''\<rparr>) (init 0))))"
  using shell_pipeline_decision [of "scenario ''server'' True" productionOptions 0
      scenarioClientApp "\<lparr>appShell_app = ''ssr'', appShell_route = ''/''\<rparr>"]
    shell_pipeline_decision [of "scenario ''server'' True"
      "productionOptions\<lparr>target := Some ''development''\<rparr>" 0
      scenarioClientApp "\<lparr>appShell_app = ''ssr'', appShell_route = ''/''\<rparr>"]
  by (simp add: scenario_defs run_defs shellPipelineRuns_def serverBuildCalled_def)

text \<open>
  The claim as first stated fails in both directions. In scenario C the four conditions
  hold, the platform guard stops the run and the pipeline does not run; nor does it run
  when the client build, or the server build, is rejected. And with skip-app-shell
  undefined, which is not \<^verbatim>\<open>false\<close>, the pipeline runs.
\<close>

theorem shell_pipeline_decision_counterexample:
  "target productionOptions = Some ''production'' \<and>
   aot productionOptions = None \<and>
   skipAppShell productionOptions = Some False \<and>
   getAppFromConfig (scenario ''browser'' True) (app productionOptions) = Inr scenarioClientApp \<and>
   getAppFromConfig (scenarioBuildFails None) (app productionOptions) = Inr scenarioClientApp \<and>
   getAppFromConfig (scenarioBuildFails (Some ''ssr'')) (app productionOptions) =
     Inr scenarioClientApp \<and>
   appShell scenarioClientApp = Some \<lparr>appShell_app = ''ssr'', appShell_route = ''/''\<rparr> \<and>
   \<not> shellPipelineRuns (calls (snd (run (scenario ''browser'' True) productionOptions (init 0)))) \<and>
   \<not> shellPipelineRuns (calls (snd (run (scenarioBuildFails None) productionOptions (init 0)))) \<and>
   \<not> shellPipelineRuns
       (calls (snd (run (scenarioBuildFails (Some ''ssr'')) productionOptions (init 0)))) \<and>
   skipAppShell (productionOptions\<lparr>skipAppShell := None\<rparr>) \<noteq> Some False \<and>
   shellPipelineRuns (calls (snd (run (scenario ''server'' True)
     (productionOptions\<lparr>skipAppShell := None\<rparr>) (init 0))))"
  by (simp add: scenario_defs run_defs shellPipelineRuns_def)

section \<open>Validation\<close>

text \<open>
  C8. \<^verbatim>\<open>validate\<close> makes two checks, the framework version and then the
  type-checker version. When both pass it returns \<^verbatim>\<open>true\<close>, having made exactly
  these two calls and left the world as it was, and the run that follows starts after
  them. When the framework check fails, or it passes and the type-checker check fails,
  \<^verbatim>\<open>validate\<close> raises the exception of that check and the whole run ends with it:
  no application is resolved, nothing is built or rendered, and the world is untouched.
\<close>

theorem validate_before_run:
  "(assertAngularVersionIs2_3_1OrHigher c (project_root c) w = None \<and>
    assertTypescriptVersion c (project_root c) w = None \<longrightarrow>
      validate c options (init w) =
        (Inr True,
         \<lparr>world = w,
          calls = [AssertAngularVersionIs2_3_1OrHigher (project_root c),
                   AssertTypescriptVersion (project_root c)]\<rparr>) \<and>
      validateAndRun c options (init w) =
        run c options
          \<lparr>world = w,
           calls = [AssertAngularVersionIs2_3_1OrHigher (project_root c),
                    AssertTypescriptVersion (project_root c)]\<rparr> \<and>
      take 2 (calls (snd (validateAndRun c options (init w)))) =
        [AssertAngularVersionIs2_3_1OrHigher (project_root c),
         AssertTypescriptVersion (project_root c)]) \<and>
   (assertAngularVersionIs2_3_1OrHigher c (project_root c) w = Some e \<longrightarrow>
      validate c options (init w) =
        (Inl (Thrown e),
         \<lparr>world = w, calls = [AssertAngularVersionIs2_3_1OrHigher (project_root c)]\<rparr>) \<and>
      validateAndRun c options (init w) =
        (Inl (Thrown e),
         \<lparr>world = w, calls = [AssertAngularVersionIs2_3_1OrHigher (project_root c)]\<rparr>)) \<and>
   (assertAngularVersionIs2_3_1OrHigher c (project_root c) w = None \<and>
    assertTypescriptVersion c (project_root c) w = Some e \<longrightarrow>
      validate c options (init w) =
        (Inl (Thrown e),
         \<lparr>world = w,
          calls = [AssertAngularVersionIs2_3_1OrHigher (project_root c),
                   AssertTypescriptVersion (project_root c)]\<rparr>) \<and>
      validateAndRun c options (init w) =
        (Inl (Thrown e),
         \<lparr>world = w,
          calls = [AssertAngularVersionIs2_3_1OrHigher (project_root c),
                   AssertTypescriptVersion (project_root c)]\<rparr>))"
proof -
  let ?s = "\<lparr>world = w,
      calls = [AssertAngularVersionIs2_3_1OrHigher (project_root c),
               AssertTypescriptVersion (project_root c)]\<rparr>"
  have p: "take 2 (calls (snd (run c options ?s))) = calls ?s"
    using run_calls_prefix [of ?s c options] by (simp add: numeral_2_eq_2)
  have ok: "validate c options (init w) = (Inr True, ?s) \<and>
      validateAndRun c options (init w) = run c options ?s \<and>
      take 2 (calls (snd (validateAndRun c options (init w)))) =
        [AssertAngularVersionIs2_3_1OrHigher (project_root c),
         AssertTypescriptVersion (project_root c)]"
    if "assertAngularVersionIs2_3_1OrHigher c (project_root c) w = None"
      and "assertTypescriptVersion c (project_root c) w = None"
  proof -
    have v: "validate c options (init w) = (Inr True, ?s)"
      using that by (simp add: validate_def init_def logCall_def)
    then have r: "validateAndRun c options (init w) = run c options ?s"
      by (simp add: validateAndRun_def)
    from v r p show ?thesis by simp
  qed
  have angular: "validate c options (init w) =
        (Inl (Thrown e),
         \<lparr>world = w, calls = [AssertAngularVersionIs2_3_1OrHigher (project_root c)]\<rparr>) \<and>
      validateAndRun c options (init w) =
        (Inl (Thrown e),
         \<lparr>world = w, calls = [AssertAngularVersionIs2_3_1OrHigher (project_root c)]\<rparr>)"
    if "assertAngularVersionIs2_3_1OrHigher c (project_root c) w = Some e"
    using that by (simp add: validateAndRun_def validate_def init_def logCall_def)
  have typescript: "validate c options (init w) = (Inl (Thrown e), ?s) \<and>
      validateAndRun c options (init w) = (Inl (Thrown e), ?s)"
    if "assertAngularVersionIs2_3_1OrHigher c (project_root c) w = None"
      and "assertTypescriptVersion c (project_root c) w = Some e"
    using that by (simp add: validateAndRun_def validate_def init_def logCall_def)
  from ok angular typescript show ?thesis by blast
qed

text \<open>
  On the project above: both checks pass and the run goes on to resolve the client
  application; the type-checker check fails; the framework check fails.
\<close>

theorem validate_before_run_witness:
  "assertAngularVersionIs2_3_1OrHigher (scenario ''server'' True) ''/proj'' 0 = None \<and>
   assertTypescriptVersion (scenario ''server'' True) ''/proj'' 0 = None \<and>
   validate (scenario ''server'' True) productionOptions (init 0) =
     (Inr True,
      \<lparr>world = 0,
       calls = [AssertAngularVersionIs2_3_1OrHigher ''/proj'', AssertTypescriptVersion ''/proj'']\<rparr>) \<and>
   take 3 (calls (snd (validateAndRun (scenario ''server'' True) productionOptions (init 0)))) =
     [AssertAngularVersionIs2_3_1OrHigher ''/proj'', AssertTypescriptVersion ''/proj'',
      GetAppFromConfig None] \<and>
   assertTypescriptVersion (scenario ''server'' False) ''/proj'' 0 = Some ''typescript too old'' \<and>
   validateAndRun (scenario ''server'' False) productionOptions (init 0) =
     (Inl (Thrown ''typescript too old''),
      \<lparr>world = 0,
       calls = [AssertAngularVersionIs2_3_1OrHigher ''/proj'', AssertTypescriptVersion ''/proj'']\<rparr>) \<and>
   assertAngularVersionIs2_3_1OrHigher
     ((scenario ''server'' True)\<lparr>assertAngularVersionIs2_3_1OrHigher :=
        \<lambda>root w. Some ''angular too old''\<rparr>) ''/proj'' 0 = Some ''angular too old'' \<and>
   validateAndRun
     ((scenario ''server'' True)\<lparr>assertAngularVersionIs2_3_1OrHigher :=
        \<lambda>root w. Some ''angular too old''\<rparr>) productionOptions (init 0) =
     (Inl (Thrown ''angular too old''),
      \<lparr>world = 0, calls = [AssertAngularVersionIs2_3_1OrHigher ''/proj'']\<rparr>)"
  using validate_before_run [where c = "scenario ''server'' True" and w = 0
      and options = productionOptions and e = "''none''"]
    validate_before_run [where c = "scenario ''server'' False" and w = 0
      and options = productionOptions and e = "''typescript too old''"]
    validate_before_run [where c = "(scenario ''server'' True)\<lparr>assertAngularVersionIs2_3_1OrHigher :=
        \<lambda>root w. Some ''angular too old''\<rparr>" and w = 0
      and options = productionOptions and e = "''angular too old''"]
  by (simp add: scenario_defs run_defs)

section \<open>The null server application is never read\<close>

text \<open>
  \<^verbatim>\<open>serverApp.outDir\<close> is read only on the path on which the guard has assigned
  \<^verbatim>\<open>serverApp\<close>: no run ends with the \<open>TypeError\<close> of a \<^verbatim>\<open>null\<close> server
  application.
\<close>

lemma run_no_TypeError: "fst (run c options s) \<noteq> Inl TypeError"
  by (cases rule: run_cases [of c options s]) (simp_all split: sum.splits)

end
